theory Spec2Isabelle
  imports Main "HOL-Library.Word"
begin

unbundle bit_operations_syntax

section \<open>The ATmega168 bicycle tail light (m168\_bike\_light.c)\<close>

text \<open>
  The firmware is one C file: a foreground loop in \<open>main\<close>, three interrupt service
  routines and a handful of helpers, all working on global variables and on memory-mapped
  I/O registers.  The embedding keeps every global and every register the file touches as
  a field of one record, and every C function as a function from machine state to machine
  state.  \<open>unsigned char\<close> is \<open>8 word\<close>, \<open>unsigned int\<close> (16 bit on the AVR) is
  \<open>16 word\<close>.
\<close>

type_synonym u8 = "8 word"
type_synonym u16 = "16 word"

subsection \<open>Compile-time constants\<close>

text \<open>
  Bit positions of the ATmega168 register bits named in the source.  They come from the
  device header of avr-libc (\<open>avr/io.h\<close>), which is not part of the repository; the
  values are those of the ATmega168 data sheet.
\<close>

definition OCIE1A :: nat where "OCIE1A = 1"
definition WGM12 :: nat where "WGM12 = 3"
definition CS10 :: nat where "CS10 = 0"
definition CS11 :: nat where "CS11 = 1"
definition CS00 :: nat where "CS00 = 0"
definition CS02 :: nat where "CS02 = 2"
definition TOIE0 :: nat where "TOIE0 = 0"
definition PCIE1 :: nat where "PCIE1 = 1"
definition PCINT8 :: nat where "PCINT8 = 0"
definition SE :: nat where "SE = 0"
definition SM0 :: nat where "SM0 = 1"
definition SM1 :: nat where "SM1 = 2"
definition SM2 :: nat where "SM2 = 3"

text \<open>\<open>SLEEP_MODE_PWR_DOWN\<close> of avr-libc's \<open>avr/sleep.h\<close> for this device.\<close>

definition SLEEP_MODE_PWR_DOWN :: u8 where "SLEEP_MODE_PWR_DOWN = push_bit 1 2"

text \<open>The \<open>#define\<close>s of the source file itself.\<close>

definition KEY0 :: nat where "KEY0 = 0"

definition sweepDelay :: u16 where "sweepDelay = 469"
definition xorDelay :: u16 where "xorDelay = 3125"
definition flashDelay :: u16 where "flashDelay = 1719"

definition sweep :: u8 where "sweep = 0"
definition xor_st :: u8 where "xor_st = 1"
definition flash :: u8 where "flash = 2"
definition sleep :: u8 where "sleep = 3"

subsection \<open>Machine state\<close>

text \<open>
  The first group of fields are the I/O registers (\<open>ledPort\<close> is \<open>PORTD\<close>, \<open>ledDDR\<close>
  is \<open>DDRD\<close>, \<open>KEY_PORT\<close> is \<open>PORTC\<close>, \<open>KEY_DDR\<close> is \<open>DDRC\<close>); \<open>I_flag\<close> is the
  global interrupt enable bit that \<open>cli()\<close> and \<open>sei()\<close> write.  The second group are
  the global variables of the file, with the two \<open>static\<close> locals \<open>ct0\<close> and
  \<open>ct1\<close> of the debounce routine.  The input register \<open>PINC\<close> (\<open>KEY_PIN\<close>) is not
  state of the program: the debounce routine takes the sampled value as an argument.
  \<open>sleeps\<close> is the only field with no counterpart in the source: it counts the calls of
  \<open>sleep_now\<close>, so that "the processor was parked" can be read off a state.
\<close>

record mcu =
  PORTD :: u8
  DDRD :: u8
  PORTC :: u8
  DDRC :: u8
  TIMSK0 :: u8
  TCCR0B :: u8
  TCNT0 :: u8
  TIMSK1 :: u8
  TCCR1B :: u8
  OCR1A :: u16
  TCNT1 :: u16
  PCICR :: u8
  PCMSK1 :: u8
  SMCR :: u8
  I_flag :: bool
  state :: u8
  timer :: u8
  tracker :: u8
  direction :: u8
  debounce_cnt :: u8
  key_press :: u8
  key_state :: u8
  ct0 :: u8
  ct1 :: u8
  sleeps :: nat

text \<open>
  The state at power-on: the registers hold their reset value 0, the C runtime clears
  every global and static without an initialiser, and the two initialisers of the file
  are 0 as well.
\<close>

definition power_on :: mcu where
  "power_on = \<lparr> PORTD = 0, DDRD = 0, PORTC = 0, DDRC = 0, TIMSK0 = 0, TCCR0B = 0,
     TCNT0 = 0, TIMSK1 = 0, TCCR1B = 0, OCR1A = 0, TCNT1 = 0, PCICR = 0, PCMSK1 = 0,
     SMCR = 0, I_flag = False, state = 0, timer = 0, tracker = 0, direction = 0,
     debounce_cnt = 0, key_press = 0, key_state = 0, ct0 = 0, ct1 = 0, sleeps = 0 \<rparr>"

definition cli :: "mcu \<Rightarrow> mcu" where
  "cli s = s\<lparr>I_flag := False\<rparr>"

definition sei :: "mcu \<Rightarrow> mcu" where
  "sei s = s\<lparr>I_flag := True\<rparr>"

subsection \<open>Set-up functions\<close>

definition initIO :: "mcu \<Rightarrow> mcu" where
  "initIO s =
     (let s1 = s\<lparr>DDRD := DDRD s OR 0xFF\<rparr>;
          s2 = s1\<lparr>PORTD := PORTD s1 OR 0xFF\<rparr>;
          s3 = s2\<lparr>DDRC := DDRC s2 AND NOT (push_bit KEY0 1)\<rparr>
      in s3\<lparr>PORTC := PORTC s3 OR push_bit KEY0 1\<rparr>)"

definition initTimer1_modes :: "mcu \<Rightarrow> mcu" where
  "initTimer1_modes s =
     (let s1 = cli s;
          s2 = s1\<lparr>TIMSK1 := TIMSK1 s1 OR push_bit OCIE1A 1\<rparr>;
          s3 = s2\<lparr>TCCR1B := TCCR1B s2 OR push_bit WGM12 1\<rparr>
      in sei s3)"

definition timer0_overflow :: "mcu \<Rightarrow> mcu" where
  "timer0_overflow s =
     (let s1 = cli s;
          s2 = s1\<lparr>TCCR0B := TCCR0B s1 OR (push_bit CS02 1 OR push_bit CS00 1)\<rparr>;
          s3 = s2\<lparr>TIMSK0 := TIMSK0 s2 OR push_bit TOIE0 1\<rparr>
      in sei s3)"

subsection \<open>The mode timer (Timer1)\<close>

definition start_timer1_compare :: "u16 \<Rightarrow> mcu \<Rightarrow> mcu" where
  "start_timer1_compare cycle_count s =
     (let s1 = cli s;
          s2 = s1\<lparr>OCR1A := cycle_count\<rparr>;
          s3 = s2\<lparr>TCCR1B := TCCR1B s2 OR (push_bit CS11 1 OR push_bit CS10 1)\<rparr>
      in sei s3)"

definition timer1_stop :: "mcu \<Rightarrow> mcu" where
  "timer1_stop s =
     (let s1 = cli s;
          s2 = s1\<lparr>TCCR1B := TCCR1B s1 AND NOT (push_bit CS11 1 OR push_bit CS10 1)\<rparr>;
          s3 = s2\<lparr>TCNT1 := 0\<rparr>
      in sei s3)"

subsection \<open>Reading the debounced key\<close>

text \<open>The result is the pair of the returned byte and the state left behind.\<close>

definition get_key_press :: "u8 \<Rightarrow> mcu \<Rightarrow> u8 \<times> mcu" where
  "get_key_press key_mask s =
     (let s1 = cli s;
          key_mask1 = key_mask AND key_press s1;
          s2 = s1\<lparr>key_press := key_press s1 XOR key_mask1\<rparr>
      in (key_mask1, sei s2))"

definition toggle_led :: "mcu \<Rightarrow> mcu" where
  "toggle_led s = s\<lparr>PORTD := PORTD s XOR 0xFF\<rparr>"

subsection \<open>Power-down and wake-up\<close>

definition init_pcint :: "mcu \<Rightarrow> mcu" where
  "init_pcint s =
     (let s1 = s\<lparr>PCICR := PCICR s OR push_bit PCIE1 1\<rparr>
      in s1\<lparr>PCMSK1 := PCMSK1 s1 OR push_bit PCINT8 1\<rparr>)"

text \<open>
  The three macros of avr-libc's \<open>avr/sleep.h\<close> that the source uses, on the sleep
  mode control register.
\<close>

definition set_sleep_mode :: "u8 \<Rightarrow> mcu \<Rightarrow> mcu" where
  "set_sleep_mode m s =
     s\<lparr>SMCR := (SMCR s AND NOT (push_bit SM0 1 OR push_bit SM1 1 OR push_bit SM2 1)) OR m\<rparr>"

definition sleep_enable :: "mcu \<Rightarrow> mcu" where
  "sleep_enable s = s\<lparr>SMCR := SMCR s OR push_bit SE 1\<rparr>"

definition sleep_disable :: "mcu \<Rightarrow> mcu" where
  "sleep_disable s = s\<lparr>SMCR := SMCR s AND NOT (push_bit SE 1)\<rparr>"

text \<open>The pin change interrupt, \<open>ISR(PCINT1_vect)\<close>.\<close>

definition PCINT1_vect :: "mcu \<Rightarrow> mcu" where
  "PCINT1_vect s =
     (let s1 = sleep_disable s;
          s2 = s1\<lparr>PCICR := PCICR s1 AND NOT (push_bit PCIE1 1)\<rparr>
      in s2\<lparr>PCMSK1 := PCMSK1 s2 AND NOT (push_bit PCINT8 1)\<rparr>)"

text \<open>
  \<open>sleep_mode()\<close> is \<open>sleep_enable(); sleep_cpu(); sleep_disable();\<close>.  In power-down
  mode the processor halts at \<open>sleep_cpu()\<close>; the only interrupt the program has armed
  that can end the halt is the pin change interrupt, so the call returns exactly when
  \<open>PCINT1_vect\<close> has run.  The model of the blocking call is therefore the state after the
  wake-up: the handler's effect sits where the halt is.
\<close>

definition sleep_mode :: "mcu \<Rightarrow> mcu" where
  "sleep_mode s = sleep_disable (PCINT1_vect (sleep_enable s))"

text \<open>\<open>_delay_ms(500)\<close> is a busy wait and changes no variable or register.\<close>

definition sleep_now :: "mcu \<Rightarrow> mcu" where
  "sleep_now s =
     (let s0 = s\<lparr>sleeps := Suc (sleeps s)\<rparr>;
          s1 = cli s0;
          s2 = init_pcint s1;
          s3 = set_sleep_mode SLEEP_MODE_PWR_DOWN s2;
          s4 = sei s3
      in sleep_mode s4)"

subsection \<open>Entering a mode\<close>

text \<open>
  The parameter of \<open>initState\<close> is called \<open>state\<close> in the source and hides the global of
  the same name; the function never writes the global.  The \<open>switch\<close> has no
  \<open>default\<close>: any other value falls through and nothing happens.
\<close>

definition initState :: "u8 \<Rightarrow> mcu \<Rightarrow> mcu" where
  "initState st s =
     (if st = sweep then
        start_timer1_compare sweepDelay (s\<lparr>tracker := 0x01, direction := 1\<rparr>)
      else if st = xor_st then
        start_timer1_compare xorDelay (s\<lparr>PORTD := 0x0F\<rparr>)
      else if st = flash then
        start_timer1_compare flashDelay (s\<lparr>PORTD := 0xFF\<rparr>)
      else if st = sleep then
        (sleep_now (s\<lparr>PORTD := 0x00\<rparr>))\<lparr>timer := 1\<rparr>
      else s)"

subsection \<open>The foreground loop\<close>

text \<open>The statements of \<open>main\<close> before the loop.\<close>

definition main_init :: "mcu \<Rightarrow> mcu" where
  "main_init s =
     (let s1 = initIO s;
          s2 = timer0_overflow s1;
          s3 = initTimer1_modes s2;
          s4 = s3\<lparr>state := sweep\<rparr>
      in initState (state s4) s4)"

text \<open>
  The first half of the loop body, \<open>if (timer) { switch (state) ... timer = 0; }\<close>.
  \<open>tracker <<= 1\<close> and \<open>tracker >>= 1\<close> compute in \<open>int\<close> and store the low eight
  bits back; on \<open>8 word\<close> that is \<open>push_bit 1\<close> and \<open>drop_bit 1\<close>.
\<close>

definition sweep_step :: "mcu \<Rightarrow> mcu" where
  "sweep_step s =
     (let s1 = (if direction s \<noteq> 0 then s\<lparr>tracker := push_bit 1 (tracker s)\<rparr>
                else s\<lparr>tracker := drop_bit 1 (tracker s)\<rparr>);
          s2 = (if tracker s1 = 0x01 \<or> tracker s1 = 0x80
                then s1\<lparr>direction := direction s1 XOR 1\<rparr> else s1)
      in s2\<lparr>PORTD := tracker s2\<rparr>)"

definition on_timer :: "mcu \<Rightarrow> mcu" where
  "on_timer s =
     (if timer s \<noteq> 0 then
        (let s1 =
           (if state s = sweep then sweep_step s
            else if state s = xor_st then toggle_led s
            else if state s = flash then toggle_led s
            else if state s = sleep then
              (let s' = s\<lparr>state := sweep\<rparr> in initState (state s') s')
            else s)
         in s1\<lparr>timer := 0\<rparr>)
      else s)"

text \<open>
  The body of \<open>if (get_key_press(1<<KEY0)) { ... }\<close>.  \<open>++state\<close> wraps at eight bits,
  and its value is compared with \<open>sleep\<close>.
\<close>

definition key_pressed :: "mcu \<Rightarrow> mcu" where
  "key_pressed s =
     (let s1 = timer1_stop s;
          s2 = s1\<lparr>timer := 0\<rparr>;
          s3 = s2\<lparr>state := state s2 + 1\<rparr>;
          s4 = (if state s3 > sleep then s3\<lparr>state := sweep\<rparr> else s3)
      in initState (state s4) s4)"

definition on_key :: "mcu \<Rightarrow> mcu" where
  "on_key s =
     (let (k, s1) = get_key_press (push_bit KEY0 1) s
      in if k \<noteq> 0 then key_pressed s1 else s1)"

text \<open>One turn of \<open>while(1)\<close>.\<close>

definition main_loop :: "mcu \<Rightarrow> mcu" where
  "main_loop s = on_key (on_timer s)"

subsection \<open>Interrupt service routines\<close>

text \<open>
  \<open>ISR(TIMER0_OVF_vect)\<close>, with the value read from \<open>KEY_PIN\<close> as argument.  The preload
  \<open>(unsigned char)(signed short)-(F_CPU / 1024 * 10e-3 + 0.5)\<close> is
  \<open>-(976 * 0.01 + 0.5) = -10.26\<close>, truncated to \<open>-10\<close>, that is 246 as a byte.
\<close>

definition TIMER0_OVF_vect :: "u8 \<Rightarrow> mcu \<Rightarrow> mcu" where
  "TIMER0_OVF_vect key_pin s =
     (let s1 = s\<lparr>TCNT0 := 246\<rparr>;
          i = key_state s1 XOR NOT key_pin;
          s2 = s1\<lparr>ct0 := NOT (ct0 s1 AND i)\<rparr>;
          s3 = s2\<lparr>ct1 := ct0 s2 XOR (ct1 s2 AND i)\<rparr>;
          i1 = i AND (ct0 s3 AND ct1 s3);
          s4 = s3\<lparr>key_state := key_state s3 XOR i1\<rparr>
      in s4\<lparr>key_press := key_press s4 OR (key_state s4 AND i1)\<rparr>)"

definition TIMER1_COMPA_vect :: "mcu \<Rightarrow> mcu" where
  "TIMER1_COMPA_vect s = s\<lparr>timer := 1\<rparr>"

text \<open>The debounce routine run over a list of successive samples of \<open>KEY_PIN\<close>.\<close>

fun samples :: "u8 list \<Rightarrow> mcu \<Rightarrow> mcu" where
  "samples [] s = s"
| "samples (p # ps) s = samples ps (TIMER0_OVF_vect p s)"

text \<open>
  One elapsed mode period: the compare interrupt raises the flag and the loop consumes
  it.
\<close>

definition tick :: "mcu \<Rightarrow> mcu" where
  "tick s = on_timer (TIMER1_COMPA_vect s)"

fun ticks :: "nat \<Rightarrow> mcu \<Rightarrow> mcu" where
  "ticks 0 s = s"
| "ticks (Suc n) s = ticks n (tick s)"

text \<open>
  What \<open>if (++state > sleep) state = sweep;\<close> does to the mode variable, as a function
  of its old value.
\<close>

definition next_mode :: "u8 \<Rightarrow> u8" where
  "next_mode m = (if m + 1 > sleep then sweep else m + 1)"

subsection \<open>Reading the debounce routine bit by bit\<close>



subsection \<open>Notions used to state the sweep invariant\<close>

text \<open>The number of bits set in a byte.\<close>

definition popcount :: "u8 \<Rightarrow> nat" where
  "popcount x = length (filter (bit x) [0..<8])"

text \<open>
  The fourteen combinations of pattern and direction that the sweep runs through: up
  from 0x01 to 0x40 ascending, 0x80 already descending, down to 0x02 descending, and
  0x01 ascending again.
\<close>

definition sweep_inv :: "mcu \<Rightarrow> bool" where
  "sweep_inv s = ((tracker s, direction s) \<in>
     {(0x01, 1), (0x02, 1), (0x04, 1), (0x08, 1), (0x10, 1), (0x20, 1), (0x40, 1),
      (0x80, 0), (0x40, 0), (0x20, 0), (0x10, 0), (0x08, 0), (0x04, 0), (0x02, 0)})"

text \<open>
  A run of the whole program after \<open>main\<close>'s set-up is a sequence of events: the two
  halves of the loop body, and the two timer interrupts, which may fall between them.
\<close>

datatype event = Loop_timer | Loop_key | Timer0_ovf u8 | Timer1_compa

fun step :: "event \<Rightarrow> mcu \<Rightarrow> mcu" where
  "step Loop_timer s = on_timer s"
| "step Loop_key s = on_key s"
| "step (Timer0_ovf p) s = TIMER0_OVF_vect p s"
| "step Timer1_compa s = TIMER1_COMPA_vect s"

fun run :: "event list \<Rightarrow> mcu \<Rightarrow> mcu" where
  "run [] s = s"
| "run (e # es) s = run es (step e s)"

subsection \<open>Runs of the foreground loop with its interrupts\<close>

text \<open>
  The two timer interrupts, and one turn of \<open>while(1)\<close> as the processor runs it: the
  timer half, the interrupts \<open>a\<close> served before the key is polled, the key half, and
  the interrupts \<open>b\<close> served before the next turn.  (Interrupts are placed between the
  two halves; neither of them writes \<open>state\<close>, and only the foreground clears
  \<open>timer\<close>.)
\<close>

datatype interrupt = Ovf u8 | Compa

fun isr :: "interrupt \<Rightarrow> mcu \<Rightarrow> mcu" where
  "isr (Ovf p) s = TIMER0_OVF_vect p s"
| "isr Compa s = TIMER1_COMPA_vect s"

fun isrs :: "interrupt list \<Rightarrow> mcu \<Rightarrow> mcu" where
  "isrs [] s = s"
| "isrs (i # is) s = isrs is (isr i s)"

definition turn :: "interrupt list \<Rightarrow> interrupt list \<Rightarrow> mcu \<Rightarrow> mcu" where
  "turn a b s = isrs b (on_key (isrs a (on_timer s)))"

fun turns :: "(interrupt list \<times> interrupt list) list \<Rightarrow> mcu \<Rightarrow> mcu" where
  "turns [] s = s"
| "turns ((a, b) # ts) s = turns ts (turn a b s)"

text \<open>
  What holds of the mode at the top of the loop: it is sweep, xor or flash, or it is sleep
  and the tick flag is up.
\<close>

definition loop_inv :: "mcu \<Rightarrow> bool" where
  "loop_inv s = (state s \<in> {sweep, xor_st, flash} \<or> (state s = sleep \<and> timer s \<noteq> 0))"

section \<open>Properties\<close>

lemmas mode_names = sweep_def xor_st_def flash_def sleep_def

lemmas fn_defs = cli_def sei_def start_timer1_compare_def timer1_stop_def toggle_led_def
  init_pcint_def set_sleep_mode_def sleep_enable_def sleep_disable_def PCINT1_vect_def
  sleep_mode_def sleep_now_def

subsection \<open>Polling the pending presses\<close>

lemma clear_masked: "(k :: u8) XOR (m AND k) = k AND NOT m"
  by (simp add: bit_eq_iff bit_simps) blast

lemma get_key_press_fst: "fst (get_key_press m s) = m AND key_press s"
  by (simp add: get_key_press_def Let_def cli_def)

lemma get_key_press_snd:
  "snd (get_key_press m s) = s\<lparr>key_press := key_press s AND NOT m, I_flag := True\<rparr>"
  by (simp add: get_key_press_def Let_def cli_def sei_def clear_masked)

text \<open>
  Claim C5.  \<open>get_key_press\<close> returns the bits of the mask that are pending, removes
  exactly the returned bits from \<open>key_press\<close> (which is the same as removing the mask),
  and a second call with the same mask right after it returns 0.
\<close>

theorem get_key_press_read_and_clear:
  "fst (get_key_press m s) = m AND key_press s \<and>
   key_press (snd (get_key_press m s)) = key_press s AND NOT (fst (get_key_press m s)) \<and>
   key_press (snd (get_key_press m s)) = key_press s AND NOT m \<and>
   fst (get_key_press m (snd (get_key_press m s))) = 0"
proof -
  have "key_press s AND NOT (m AND key_press s) = key_press s AND NOT m"
    by (simp add: bit_eq_iff bit_simps) blast
  moreover have "m AND (key_press s AND NOT m) = 0"
    by (simp add: bit_eq_iff bit_simps)
  ultimately show ?thesis
    by (simp add: get_key_press_fst get_key_press_snd)
qed

text \<open>
  Claim C10.  The bits of \<open>key_press\<close> outside the mask are the same before and after
  \<open>get_key_press\<close>: masking both values with the complement of the mask gives equal
  bytes, for every mask and every state.
\<close>

theorem get_key_press_frame:
  "key_press (snd (get_key_press m s)) AND NOT m = key_press s AND NOT m"
  by (simp add: get_key_press_snd)

subsection \<open>The mode variable under the press handler\<close>

lemma initState_state: "state (initState st s) = state s"
  by (simp add: initState_def fn_defs Let_def)

lemma key_pressed_state: "state (key_pressed s) = next_mode (state s)"
  by (simp add: key_pressed_def Let_def initState_state next_mode_def timer1_stop_def
      cli_def sei_def)

lemma next_mode_cases:
  "next_mode sweep = xor_st" "next_mode xor_st = flash"
  "next_mode flash = sleep" "next_mode sleep = sweep"
  by (simp_all add: next_mode_def mode_names)

subsection \<open>Arming and stopping the mode timer\<close>

lemma masked_clear: "((x :: u8) AND NOT m) AND m = 0"
  by (simp add: bit_eq_iff bit_simps)

lemma TCNT1_initState: "TCNT1 (initState st s) = TCNT1 s"
  by (simp add: initState_def fn_defs Let_def)

lemma TCNT1_key_pressed: "TCNT1 (key_pressed s) = 0"
  by (simp add: key_pressed_def Let_def TCNT1_initState timer1_stop_def cli_def sei_def)

text \<open>
  Claim C3 says that \<open>start_timer1_compare\<close> itself resets the counter.  It does not:
  armed on a timer that is running in CTC mode with 100 counts on the counter, it leaves
  the 100 counts there.
\<close>

theorem arm_keeps_counter:
  "TCNT1 (start_timer1_compare sweepDelay (power_on\<lparr>TCCR1B := 0x0B, TCNT1 := 100\<rparr>)) \<noteq> 0"
  by (simp add: start_timer1_compare_def cli_def sei_def Let_def)

text \<open>
  Claim C3, amended.  \<open>start_timer1_compare\<close> loads the compare register with the
  requested count and sets the two clock select bits, and leaves the counter as it is.
  Stopping and clearing is the work of \<open>timer1_stop\<close>, which clears the clock select
  bits and the counter; armed after \<open>timer1_stop\<close> the timer starts from zero, and that
  is the order of the button press handler, which always leaves the counter at zero.
\<close>

theorem arm_after_stop:
  "OCR1A (start_timer1_compare c s) = c \<and>
   TCCR1B (start_timer1_compare c s) = TCCR1B s OR (push_bit CS11 1 OR push_bit CS10 1) \<and>
   TCNT1 (start_timer1_compare c s) = TCNT1 s \<and>
   TCNT1 (timer1_stop s) = 0 \<and>
   TCCR1B (timer1_stop s) AND (push_bit CS11 1 OR push_bit CS10 1) = 0 \<and>
   TCNT1 (start_timer1_compare c (timer1_stop s)) = 0 \<and>
   TCNT1 (key_pressed s) = 0"
proof -
  have "TCCR1B (timer1_stop s) = TCCR1B s AND NOT (push_bit CS11 1 OR push_bit CS10 1)"
    by (simp add: timer1_stop_def cli_def sei_def Let_def)
  then have "TCCR1B (timer1_stop s) AND (push_bit CS11 1 OR push_bit CS10 1) = 0"
    by (simp only: masked_clear)
  then show ?thesis
    by (simp add: TCNT1_key_pressed start_timer1_compare_def timer1_stop_def cli_def
        sei_def Let_def)
qed

subsection \<open>What a button press does\<close>

lemma key_pressed_unfold:
  "key_pressed s = initState (next_mode (state s))
      ((timer1_stop s)\<lparr>timer := 0, state := next_mode (state s)\<rparr>)"
  by (simp add: key_pressed_def Let_def next_mode_def timer1_stop_def cli_def sei_def)

lemma key0_pending: "(push_bit KEY0 1 AND (k :: u8) \<noteq> 0) = bit k KEY0"
  by (simp add: KEY0_def one_and_eq bit_0 mod_2_eq_odd)

lemma on_key_pending:
  "bit (key_press s) KEY0 \<Longrightarrow>
     on_key s = key_pressed (snd (get_key_press (push_bit KEY0 1) s))"
  using key0_pending [of "key_press s"]
  by (simp add: on_key_def split_beta get_key_press_fst)

lemma on_key_idle:
  "\<not> bit (key_press s) KEY0 \<Longrightarrow> on_key s = snd (get_key_press (push_bit KEY0 1) s)"
  using key0_pending [of "key_press s"]
  by (simp add: on_key_def split_beta get_key_press_fst)

text \<open>
  Claim C6.  When a press of the key is pending, the second half of the loop body is
  \<open>initState\<close> of the new mode, run on a state \<open>s2\<close> in which the timer has been
  stopped (clock select bits and counter cleared) and the tick flag has been cleared: the
  stop and the clearing come before the new mode is entered.  When the mode was flash, the
  new mode is sleep: \<open>PORTD\<close> is written 0 and then \<open>sleep_now\<close> is called, once; when
  it returns the mode is sleep, the LEDs are off and the timer is still stopped.
\<close>

theorem press_in_flash:
  assumes "bit (key_press s) KEY0"
  shows "let s1 = snd (get_key_press (push_bit KEY0 1) s);
             s2 = (timer1_stop s1)\<lparr>timer := 0, state := next_mode (state s1)\<rparr>
         in on_key s = initState (state s2) s2 \<and>
            timer s2 = 0 \<and> TCNT1 s2 = 0 \<and>
            TCCR1B s2 AND (push_bit CS11 1 OR push_bit CS10 1) = 0 \<and>
            (state s = flash \<longrightarrow>
               on_key s = (sleep_now (s2\<lparr>PORTD := 0\<rparr>))\<lparr>timer := 1\<rparr> \<and>
               state (on_key s) = sleep \<and> PORTD (on_key s) = 0 \<and>
               sleeps (on_key s) = Suc (sleeps s) \<and> TCNT1 (on_key s) = 0 \<and>
               TCCR1B (on_key s) AND (push_bit CS11 1 OR push_bit CS10 1) = 0)"
proof -
  define s1 where "s1 = snd (get_key_press (push_bit KEY0 1) s)"
  define s2 where "s2 = (timer1_stop s1)\<lparr>timer := 0, state := next_mode (state s1)\<rparr>"
  have k: "on_key s = initState (state s2) s2"
    using assms by (simp add: on_key_pending key_pressed_unfold s1_def s2_def)
  have "TCCR1B s2 = TCCR1B s1 AND NOT (push_bit CS11 1 OR push_bit CS10 1)"
    by (simp add: s2_def timer1_stop_def cli_def sei_def Let_def)
  then have c: "TCCR1B s2 AND (push_bit CS11 1 OR push_bit CS10 1) = 0"
    by (simp only: masked_clear)
  have t: "timer s2 = 0 \<and> TCNT1 s2 = 0 \<and>
      TCCR1B s2 AND (push_bit CS11 1 OR push_bit CS10 1) = 0"
    using c by (simp add: s2_def timer1_stop_def cli_def sei_def Let_def)
  have f: "state s = flash \<longrightarrow>
               on_key s = (sleep_now (s2\<lparr>PORTD := 0\<rparr>))\<lparr>timer := 1\<rparr> \<and>
               state (on_key s) = sleep \<and> PORTD (on_key s) = 0 \<and>
               sleeps (on_key s) = Suc (sleeps s) \<and> TCNT1 (on_key s) = 0 \<and>
               TCCR1B (on_key s) AND (push_bit CS11 1 OR push_bit CS10 1) = 0"
  proof
    assume fl: "state s = flash"
    then have st: "state s2 = sleep"
      by (simp add: s2_def s1_def get_key_press_snd next_mode_cases)
    have e: "on_key s = (sleep_now (s2\<lparr>PORTD := 0\<rparr>))\<lparr>timer := 1\<rparr>"
      by (simp add: k st initState_def mode_names)
    have "state (on_key s) = sleep \<and> PORTD (on_key s) = 0 \<and>
               sleeps (on_key s) = Suc (sleeps s) \<and> TCNT1 (on_key s) = 0 \<and>
               TCCR1B (on_key s) AND (push_bit CS11 1 OR push_bit CS10 1) = 0"
      using t st unfolding e
      by (simp add: fn_defs Let_def s2_def s1_def get_key_press_snd)
    with e show "on_key s = (sleep_now (s2\<lparr>PORTD := 0\<rparr>))\<lparr>timer := 1\<rparr> \<and>
               state (on_key s) = sleep \<and> PORTD (on_key s) = 0 \<and>
               sleeps (on_key s) = Suc (sleeps s) \<and> TCNT1 (on_key s) = 0 \<and>
               TCCR1B (on_key s) AND (push_bit CS11 1 OR push_bit CS10 1) = 0" by simp
  qed
  from k t f show ?thesis
    unfolding Let_def s1_def [symmetric] s2_def [symmetric] by blast
qed

theorem press_in_flash_witness:
  "bit (key_press (power_on\<lparr>state := flash, key_press := 1\<rparr>)) KEY0 \<and>
   state (on_key (power_on\<lparr>state := flash, key_press := 1\<rparr>)) = sleep \<and>
   PORTD (on_key (power_on\<lparr>state := flash, key_press := 1\<rparr>)) = 0 \<and>
   sleeps (on_key (power_on\<lparr>state := flash, key_press := 1\<rparr>)) = 1"
proof -
  define S where "S = power_on\<lparr>state := flash, key_press := 1\<rparr>"
  have h: "bit (key_press S) KEY0"
    by (simp add: S_def KEY0_def)
  have f: "state S = flash" and z: "sleeps S = 0"
    by (simp_all add: S_def power_on_def)
  from press_in_flash [OF h] f
  have "state (on_key S) = sleep \<and> PORTD (on_key S) = 0 \<and>
        sleeps (on_key S) = Suc (sleeps S)"
    unfolding Let_def by blast
  with h z show ?thesis
    unfolding S_def by simp
qed

subsection \<open>Waking up\<close>

lemma initState_sweep:
  "initState sweep s = s\<lparr>tracker := 1, direction := 1, OCR1A := sweepDelay,
      TCCR1B := TCCR1B s OR (push_bit CS11 1 OR push_bit CS10 1), I_flag := True\<rparr>"
  by (simp add: initState_def fn_defs Let_def)

lemma initState_sleep_timer: "timer (initState sleep s) = 1"
  by (simp add: initState_def mode_names)

lemma on_timer_sleep:
  "state s = sleep \<Longrightarrow> timer s \<noteq> 0 \<Longrightarrow>
     on_timer s = (initState sweep (s\<lparr>state := sweep\<rparr>))\<lparr>timer := 0\<rparr>"
  by (simp add: on_timer_def Let_def mode_names)

lemma on_timer_twice: "on_timer (on_timer s) = on_timer s"
  by (simp add: on_timer_def Let_def)

text \<open>
  Claim C7.  Let \<open>w\<close> be the state in which \<open>initState(sleep)\<close> returns, called with the
  mode variable at sleep as the press handler does.  In \<open>w\<close> the tick flag is 1 and the
  mode is still sleep.  The next pass through the tick half of the loop sets the mode to
  sweep (so neither xor nor flash), resets the pattern to 0x01 and the direction to
  ascending, arms the timer with the sweep period and clears the flag; the flag was
  raised once, so a further pass changes nothing.
\<close>

theorem wake_enters_sweep:
  "timer (initState sleep (s\<lparr>state := sleep\<rparr>)) = 1 \<and>
   state (initState sleep (s\<lparr>state := sleep\<rparr>)) = sleep \<and>
   state (on_timer (initState sleep (s\<lparr>state := sleep\<rparr>))) = sweep \<and>
   state (on_timer (initState sleep (s\<lparr>state := sleep\<rparr>))) \<notin> {xor_st, flash} \<and>
   tracker (on_timer (initState sleep (s\<lparr>state := sleep\<rparr>))) = 0x01 \<and>
   direction (on_timer (initState sleep (s\<lparr>state := sleep\<rparr>))) = 1 \<and>
   OCR1A (on_timer (initState sleep (s\<lparr>state := sleep\<rparr>))) = sweepDelay \<and>
   timer (on_timer (initState sleep (s\<lparr>state := sleep\<rparr>))) = 0 \<and>
   on_timer (on_timer (initState sleep (s\<lparr>state := sleep\<rparr>))) =
     on_timer (initState sleep (s\<lparr>state := sleep\<rparr>))"
proof -
  define w where "w = initState sleep (s\<lparr>state := sleep\<rparr>)"
  have t: "timer w = 1" and m: "state w = sleep"
    by (simp_all add: w_def initState_sleep_timer initState_state)
  then have "on_timer w = (initState sweep (w\<lparr>state := sweep\<rparr>))\<lparr>timer := 0\<rparr>"
    by (intro on_timer_sleep) simp_all
  then have "state (on_timer w) = sweep \<and> tracker (on_timer w) = 0x01 \<and>
      direction (on_timer w) = 1 \<and> OCR1A (on_timer w) = sweepDelay \<and>
      timer (on_timer w) = 0"
    by (simp add: initState_sweep)
  moreover have "sweep \<notin> {xor_st, flash}"
    by (simp add: mode_names)
  ultimately show ?thesis
    using t m unfolding w_def [symmetric] by (simp add: on_timer_twice)
qed

subsection \<open>The sweep scenarios\<close>

text \<open>
  Claim C8.  From a fresh entry into sweep, the first three ticks write 0x02, 0x04 and
  0x08 to the LEDs and the direction stays ascending.  The seventh tick brings the
  pattern to 0x80; one more tick writes 0x40, and the direction is then descending.
\<close>

theorem sweep_scenarios:
  "PORTD (ticks 1 (initState sweep (s\<lparr>state := sweep\<rparr>))) = 0x02 \<and>
   PORTD (ticks 2 (initState sweep (s\<lparr>state := sweep\<rparr>))) = 0x04 \<and>
   PORTD (ticks 3 (initState sweep (s\<lparr>state := sweep\<rparr>))) = 0x08 \<and>
   direction (ticks 1 (initState sweep (s\<lparr>state := sweep\<rparr>))) = 1 \<and>
   direction (ticks 2 (initState sweep (s\<lparr>state := sweep\<rparr>))) = 1 \<and>
   direction (ticks 3 (initState sweep (s\<lparr>state := sweep\<rparr>))) = 1 \<and>
   tracker (ticks 7 (initState sweep (s\<lparr>state := sweep\<rparr>))) = 0x80 \<and>
   PORTD (ticks 7 (initState sweep (s\<lparr>state := sweep\<rparr>))) = 0x80 \<and>
   PORTD (ticks 8 (initState sweep (s\<lparr>state := sweep\<rparr>))) = 0x40 \<and>
   direction (ticks 8 (initState sweep (s\<lparr>state := sweep\<rparr>))) = 0"
  apply (simp add: eval_nat_numeral initState_sweep)
  apply (simp add: tick_def on_timer_def TIMER1_COMPA_vect_def Let_def sweep_step_def
      mode_names)
  done

subsection \<open>Entering sweep leaves the LEDs alone\<close>

text \<open>
  Claim C9.  \<open>initState(sweep)\<close> does not write \<open>PORTD\<close>: the LEDs show after the call
  what they showed before it.  At start-up that is the 0xFF that \<open>initIO\<close> wrote, and
  after a wake-up it is the 0x00 written on the way into sleep.  The pattern is reset to
  0x01 but not shown; the first tick after the entry shifts it and writes 0x02.
\<close>

theorem enter_sweep_keeps_leds:
  "PORTD (initState sweep s) = PORTD s \<and>
   tracker (initState sweep s) = 0x01 \<and>
   PORTD (main_init s) = 0xFF \<and>
   PORTD (tick (main_init s)) = 0x02 \<and>
   PORTD (on_timer (initState sleep (s\<lparr>state := sleep\<rparr>))) = 0x00 \<and>
   PORTD (tick (initState sweep (s\<lparr>state := sweep\<rparr>))) = 0x02"
proof -
  have "(0xFF :: u8) = - 1"
    by simp
  then have "PORTD s OR 0xFF = 0xFF"
    by (simp only: bit.disj_one_right)
  then have "PORTD (main_init s) = 0xFF \<and> PORTD (tick (main_init s)) = 0x02"
    by (simp add: main_init_def initIO_def timer0_overflow_def initTimer1_modes_def
        cli_def sei_def Let_def initState_sweep tick_def on_timer_def
        TIMER1_COMPA_vect_def sweep_step_def)
  moreover have "PORTD (on_timer (initState sleep (s\<lparr>state := sleep\<rparr>))) = 0x00"
    by (simp add: on_timer_def Let_def initState_sleep_timer initState_state
        initState_sweep) (simp add: initState_def fn_defs Let_def mode_names)
  moreover have "PORTD (tick (initState sweep (s\<lparr>state := sweep\<rparr>))) = 0x02"
    by (simp add: initState_sweep tick_def on_timer_def TIMER1_COMPA_vect_def Let_def
        sweep_step_def)
  ultimately show ?thesis
    by (simp add: initState_sweep)
qed

subsection \<open>The debounce routine\<close>





























text \<open>
  At power-on the counter bits are 0, not at their reset value, and the theorem above
  does not apply: the very first sample that finds the key pressed registers a press.
\<close>

lemma first_sample_after_power_on: "key_press (samples [0xFE] power_on) = 1"
  by (simp add: TIMER0_OVF_vect_def Let_def power_on_def)

subsection \<open>The sweep invariant\<close>

lemma popcount_one_hot:
  "popcount 0x01 = 1" "popcount 0x02 = 1" "popcount 0x04 = 1" "popcount 0x08 = 1"
  "popcount 0x10 = 1" "popcount 0x20 = 1" "popcount 0x40 = 1" "popcount 0x80 = 1"
  by (simp_all add: popcount_def upt_rec [of _ 8] eval_nat_numeral bit_numeral_simps)

lemma sweep_inv_popcount: "sweep_inv s \<Longrightarrow> popcount (tracker s) = 1"
  unfolding sweep_inv_def by (auto simp add: popcount_one_hot)

lemma sweep_step_inv: "sweep_inv s \<Longrightarrow> sweep_inv (sweep_step s)"
  unfolding sweep_inv_def by (auto simp add: sweep_step_def Let_def)

lemma initState_sweep_inv: "sweep_inv (initState sweep s)"
  by (simp add: initState_sweep sweep_inv_def)

lemma initState_inv: "sweep_inv s \<Longrightarrow> sweep_inv (initState st s)"
  by (cases "st = sweep")
    (simp_all add: initState_sweep_inv, simp add: initState_def fn_defs Let_def sweep_inv_def)

lemma toggle_led_inv: "sweep_inv s \<Longrightarrow> sweep_inv (toggle_led s)"
  by (simp add: toggle_led_def sweep_inv_def)

lemma frame_inv:
  "tracker t = tracker s \<Longrightarrow> direction t = direction s \<Longrightarrow> sweep_inv s \<Longrightarrow> sweep_inv t"
  by (simp add: sweep_inv_def)

lemma on_timer_inv: "sweep_inv s \<Longrightarrow> sweep_inv (on_timer s)"
proof -
  assume i: "sweep_inv s"
  have a: "sweep_inv ((sweep_step s)\<lparr>timer := 0\<rparr>)"
    using sweep_step_inv [OF i] by (rule frame_inv [rotated 2]) simp_all
  have b: "sweep_inv ((toggle_led s)\<lparr>timer := 0\<rparr>)"
    using toggle_led_inv [OF i] by (rule frame_inv [rotated 2]) simp_all
  have c: "sweep_inv ((initState sweep (s\<lparr>state := sweep\<rparr>))\<lparr>timer := 0\<rparr>)"
    using initState_sweep_inv [of "s\<lparr>state := sweep\<rparr>"]
    by (rule frame_inv [rotated 2]) simp_all
  have d: "sweep_inv (s\<lparr>timer := 0\<rparr>)"
    using i by (rule frame_inv [rotated 2]) simp_all
  from i a b c d show ?thesis
    by (simp add: on_timer_def Let_def)
qed

lemma key_pressed_inv: "sweep_inv s \<Longrightarrow> sweep_inv (key_pressed s)"
proof -
  assume i: "sweep_inv s"
  have "sweep_inv ((timer1_stop s)\<lparr>timer := 0, state := next_mode (state s)\<rparr>)"
    using i by (rule frame_inv [rotated 2]) (simp_all add: timer1_stop_def cli_def sei_def Let_def)
  then show ?thesis
    unfolding key_pressed_unfold by (rule initState_inv)
qed

lemma on_key_inv: "sweep_inv s \<Longrightarrow> sweep_inv (on_key s)"
proof -
  assume i: "sweep_inv s"
  have g: "sweep_inv (snd (get_key_press (push_bit KEY0 1) s))"
    using i by (rule frame_inv [rotated 2]) (simp_all add: get_key_press_snd)
  show ?thesis
  proof (cases "bit (key_press s) KEY0")
    case True
    then show ?thesis using key_pressed_inv [OF g] by (simp add: on_key_pending)
  next
    case False
    then show ?thesis using g by (simp add: on_key_idle)
  qed
qed

lemma step_inv: "sweep_inv s \<Longrightarrow> sweep_inv (step e s)"
proof (cases e)
  case Loop_timer
  then show "sweep_inv s \<Longrightarrow> ?thesis" by (simp add: on_timer_inv)
next
  case Loop_key
  then show "sweep_inv s \<Longrightarrow> ?thesis" by (simp add: on_key_inv)
next
  case (Timer0_ovf p)
  then show "sweep_inv s \<Longrightarrow> ?thesis"
    by (simp add: TIMER0_OVF_vect_def Let_def sweep_inv_def)
next
  case Timer1_compa
  then show "sweep_inv s \<Longrightarrow> ?thesis"
    by (simp add: TIMER1_COMPA_vect_def sweep_inv_def)
qed

lemma run_inv: "sweep_inv s \<Longrightarrow> sweep_inv (run es s)"
  by (induction es arbitrary: s) (simp_all add: step_inv)

lemma main_init_inv: "sweep_inv (main_init s)"
  by (simp add: main_init_def Let_def initState_sweep_inv)

lemma sweep_step_flip:
  "direction (sweep_step s) \<noteq> direction s \<Longrightarrow>
     tracker (sweep_step s) = 0x01 \<or> tracker (sweep_step s) = 0x80"
  by (simp add: sweep_step_def Let_def split: if_splits)

lemma on_timer_flip:
  "direction (on_timer s) \<noteq> direction s \<Longrightarrow>
     tracker (on_timer s) = 0x01 \<or> tracker (on_timer s) = 0x80"
  using sweep_step_flip [of s]
  by (simp add: on_timer_def Let_def toggle_led_def initState_sweep split: if_splits)

lemma one_hot_nonzero: "popcount x = 1 \<Longrightarrow> x \<noteq> 0"
  by (auto simp add: popcount_def)

text \<open>
  Claim C2.  \<open>initState(sweep)\<close> establishes the invariant \<open>sweep_inv\<close>; the tick half of
  the loop preserves it, in whatever mode; it implies that the pattern has exactly one
  bit set, so the bit is never shifted out.  A tick changes the direction flag only when
  the pattern it leaves behind is 0x01 or 0x80.  The invariant therefore holds after
  \<open>main\<close>'s set-up and after every sequence of loop passes and timer interrupts that
  follows it.
\<close>

theorem sweep_invariant:
  "sweep_inv (initState sweep s) \<and>
   (sweep_inv s \<longrightarrow> sweep_inv (on_timer s) \<and> popcount (tracker s) = 1 \<and> tracker s \<noteq> 0) \<and>
   (direction (on_timer s) \<noteq> direction s \<longrightarrow>
      tracker (on_timer s) = 0x01 \<or> tracker (on_timer s) = 0x80) \<and>
   sweep_inv (run es (main_init s)) \<and>
   popcount (tracker (run es (main_init s))) = 1"
  using on_timer_flip [of s] run_inv [OF main_init_inv, of es s]
  by (auto simp add: initState_sweep_inv on_timer_inv sweep_inv_popcount
      dest: one_hot_nonzero [OF sweep_inv_popcount])

theorem sweep_invariant_witness:
  "sweep_inv (main_init power_on) \<and>
   sweep_inv (on_timer (main_init power_on)) \<and>
   popcount (tracker (main_init power_on)) = 1 \<and>
   direction (on_timer (power_on\<lparr>timer := 1, tracker := 0x40, direction := 1\<rparr>)) \<noteq>
     direction (power_on\<lparr>timer := 1, tracker := 0x40, direction := 1\<rparr>) \<and>
   tracker (on_timer (power_on\<lparr>timer := 1, tracker := 0x40, direction := 1\<rparr>)) = 0x80"
proof -
  define S where "S = main_init power_on"
  define T where "T = power_on\<lparr>timer := 1, tracker := 0x40, direction := 1\<rparr>"
  have i: "sweep_inv S"
    using sweep_invariant [of power_on "[]"] by (simp add: S_def)
  then have a: "sweep_inv (on_timer S) \<and> popcount (tracker S) = 1"
    using sweep_invariant [of S "[]"] by blast
  have f: "direction (on_timer T) \<noteq> direction T"
    by (simp add: T_def power_on_def on_timer_def sweep_step_def Let_def mode_names)
  then have "tracker (on_timer T) = 0x01 \<or> tracker (on_timer T) = 0x80"
    using sweep_invariant [of T "[]"] by blast
  moreover have "tracker (on_timer T) \<noteq> 0x01"
    by (simp add: T_def power_on_def on_timer_def sweep_step_def Let_def mode_names)
  ultimately have "tracker (on_timer T) = 0x80"
    by blast
  with i a f show ?thesis
    unfolding S_def T_def by blast
qed

subsection \<open>Button presses in the running loop\<close>

lemma modes_distinct:
  "sweep \<noteq> xor_st" "sweep \<noteq> flash" "sweep \<noteq> sleep" "xor_st \<noteq> flash"
  "xor_st \<noteq> sleep" "flash \<noteq> sleep" "xor_st \<noteq> sweep" "flash \<noteq> sweep"
  "sleep \<noteq> sweep" "flash \<noteq> xor_st" "sleep \<noteq> xor_st" "sleep \<noteq> flash"
  by (simp_all add: mode_names)

lemma isr_state: "state (isr i s) = state s"
  by (cases i) (simp_all add: TIMER0_OVF_vect_def TIMER1_COMPA_vect_def Let_def)

lemma isr_timer: "timer s \<noteq> 0 \<Longrightarrow> timer (isr i s) \<noteq> 0"
  by (cases i) (simp_all add: TIMER0_OVF_vect_def TIMER1_COMPA_vect_def Let_def)

lemma isrs_state: "state (isrs is s) = state s"
  by (induction "is" arbitrary: s) (simp_all add: isr_state)

lemma isrs_timer: "timer s \<noteq> 0 \<Longrightarrow> timer (isrs is s) \<noteq> 0"
  by (induction "is" arbitrary: s) (simp_all add: isr_timer)

lemma isrs_inv: "loop_inv s \<Longrightarrow> loop_inv (isrs is s)"
  using isrs_timer [of s "is"] by (auto simp add: loop_inv_def isrs_state)

lemma on_timer_state:
  "loop_inv s \<Longrightarrow> state (on_timer s) = (if state s = sleep then sweep else state s)"
  by (auto simp add: loop_inv_def on_timer_def Let_def initState_state sweep_step_def
      toggle_led_def mode_names)

lemma on_timer_awake:
  assumes "loop_inv s"
  shows "state (on_timer s) \<in> {sweep, xor_st, flash}"
proof (cases "state s = sleep")
  case True
  then show ?thesis by (simp add: on_timer_state [OF assms])
next
  case False
  with assms show ?thesis by (simp add: on_timer_state [OF assms] loop_inv_def)
qed

lemma on_key_state:
  "state (on_key s) = (if bit (key_press s) KEY0 then next_mode (state s) else state s)"
  by (simp add: on_key_pending on_key_idle key_pressed_state get_key_press_snd)

lemma on_key_timer: "bit (key_press s) KEY0 \<Longrightarrow> state s = flash \<Longrightarrow> timer (on_key s) = 1"
  by (simp add: on_key_pending key_pressed_unfold get_key_press_snd next_mode_cases
      initState_sleep_timer timer1_stop_def cli_def sei_def Let_def)

lemma on_key_inv_loop:
  assumes "state s \<in> {sweep, xor_st, flash}"
  shows "loop_inv (on_key s)"
proof (cases "bit (key_press s) KEY0 \<and> state s = flash")
  case True
  then have "timer (on_key s) = 1" and "state (on_key s) = sleep"
    by (simp_all add: on_key_timer on_key_state next_mode_cases)
  then show ?thesis by (simp add: loop_inv_def)
next
  case False
  with assms show ?thesis
    by (auto simp add: loop_inv_def on_key_state next_mode_cases)
qed

lemma turn_inv:
  assumes "loop_inv s"
  shows "loop_inv (turn a b s)"
proof -
  have "state (isrs a (on_timer s)) \<in> {sweep, xor_st, flash}"
    unfolding isrs_state using assms by (rule on_timer_awake)
  then have "loop_inv (on_key (isrs a (on_timer s)))"
    by (rule on_key_inv_loop)
  then show ?thesis
    unfolding turn_def by (rule isrs_inv)
qed

lemma turns_inv: "loop_inv s \<Longrightarrow> loop_inv (turns ts s)"
  by (induction ts arbitrary: s) (auto simp add: turn_inv)

lemma main_init_loop_inv: "loop_inv (main_init s)"
  by (simp add: main_init_def Let_def initState_state loop_inv_def)

lemma turn_state:
  assumes "loop_inv s"
  shows "state (turn a b s) =
    (if bit (key_press (isrs a (on_timer s))) KEY0
     then next_mode (if state s = sleep then sweep else state s)
     else (if state s = sleep then sweep else state s))"
  using assms by (simp add: turn_def isrs_state on_key_state on_timer_state)

lemma turns_append: "turns (ts @ us) s = turns us (turns ts s)"
  by (induction ts arbitrary: s) auto

lemma on_timer_key_press: "key_press (on_timer s) = key_press s"
  by (simp add: on_timer_def Let_def sweep_step_def toggle_led_def initState_sweep)

text \<open>
  Claim C1 says that four presses return to the same mode.  In the running program they
  do not.  After \<open>main\<close>'s set-up the mode is sweep; the key is then pressed and released
  four times, each time seen pressed by four debounce samples before the loop polls it
  and released by four samples after.  The third press enters sleep; on waking the timer
  half of the loop resets the mode to sweep, so the fourth press moves it on to xor.
\<close>

theorem four_presses_from_sweep:
  "state (main_init power_on) = sweep \<and>
   state (turns
     [([Ovf 0xFE, Ovf 0xFE, Ovf 0xFE, Ovf 0xFE], [Ovf 0xFF, Ovf 0xFF, Ovf 0xFF, Ovf 0xFF]),
      ([Ovf 0xFE, Ovf 0xFE, Ovf 0xFE, Ovf 0xFE], [Ovf 0xFF, Ovf 0xFF, Ovf 0xFF, Ovf 0xFF]),
      ([Ovf 0xFE, Ovf 0xFE, Ovf 0xFE, Ovf 0xFE], [Ovf 0xFF, Ovf 0xFF, Ovf 0xFF, Ovf 0xFF]),
      ([Ovf 0xFE, Ovf 0xFE, Ovf 0xFE, Ovf 0xFE], [Ovf 0xFF, Ovf 0xFF, Ovf 0xFF, Ovf 0xFF])]
     (main_init power_on)) = xor_st \<and>
   xor_st \<noteq> sweep"
  by (simp add: turn_def main_init_def initIO_def timer0_overflow_def
      initTimer1_modes_def initState_def fn_defs on_timer_def on_key_def get_key_press_def
      key_pressed_def TIMER0_OVF_vect_def TIMER1_COMPA_vect_def sweep_step_def Let_def
      power_on_def mode_names KEY0_def)

lemma turn_law:
  assumes l: "loop_inv s"
  shows "state (isrs a (on_timer s)) = (if state s = sleep then sweep else state s) \<and>
      state (isrs a (on_timer s)) \<in> {sweep, xor_st, flash} \<and>
      state (turn a b s) =
        (if \<not> bit (key_press (isrs a (on_timer s))) KEY0 then state (isrs a (on_timer s))
         else if state (isrs a (on_timer s)) = sweep then xor_st
         else if state (isrs a (on_timer s)) = xor_st then flash
         else sleep) \<and>
      loop_inv (turn a b s)"
proof -
  have m: "state (isrs a (on_timer s)) = (if state s = sleep then sweep else state s)"
    using l by (simp add: isrs_state on_timer_state)
  have w: "state (isrs a (on_timer s)) \<in> {sweep, xor_st, flash}"
    unfolding isrs_state using l by (rule on_timer_awake)
  have "state (turn a b s) =
      (if bit (key_press (isrs a (on_timer s))) KEY0
       then next_mode (state (isrs a (on_timer s))) else state (isrs a (on_timer s)))"
    unfolding m using l by (rule turn_state)
  with w have "state (turn a b s) =
      (if \<not> bit (key_press (isrs a (on_timer s))) KEY0 then state (isrs a (on_timer s))
       else if state (isrs a (on_timer s)) = sweep then xor_st
       else if state (isrs a (on_timer s)) = xor_st then flash
       else sleep)"
    by (auto simp add: next_mode_cases modes_distinct)
  with m w turn_inv [OF l] show ?thesis by blast
qed

text \<open>
  Claim C1, amended.
  \<^item> The press handler alone maps the mode sweep to xor, xor to flash, flash to sleep and
    sleep to sweep.
  \<^item> In every run of the program (set-up, interrupts, any number of loop turns with any
    interrupts in between) the mode at the top of the loop is sweep, xor or flash, or
    sleep with the tick flag up; and when the key is polled it is sweep, xor or flash,
    never sleep, so the handler's step from sleep to sweep is not taken.
  \<^item> In every such run, a loop turn that finds a press pending at the poll moves the
    mode polled from sweep to xor, from xor to flash or from flash to sleep, and a turn
    that finds none leaves it.
  \<^item> One loop turn from such a state: the timer half leaves the mode as it is, except
    that it turns sleep into sweep; if a press is then pending at the poll, the mode
    moves from sweep to xor, from xor to flash or from flash to sleep, and otherwise it
    stays.
\<close>

theorem press_advances_mode:
  "(state s \<in> {sweep, xor_st, flash, sleep} \<longrightarrow>
      state (key_pressed s) =
        (if state s = sweep then xor_st else if state s = xor_st then flash
         else if state s = flash then sleep else sweep)) \<and>
   loop_inv (turns ts (isrs i (main_init s))) \<and>
   state (isrs a (on_timer (turns ts (isrs i (main_init s))))) \<in> {sweep, xor_st, flash} \<and>
   state (turns (ts @ [(a, b)]) (isrs i (main_init s))) =
     (if \<not> bit (key_press (isrs a (on_timer (turns ts (isrs i (main_init s)))))) KEY0
      then state (isrs a (on_timer (turns ts (isrs i (main_init s)))))
      else if state (isrs a (on_timer (turns ts (isrs i (main_init s))))) = sweep then xor_st
      else if state (isrs a (on_timer (turns ts (isrs i (main_init s))))) = xor_st then flash
      else sleep) \<and>
   (loop_inv s \<longrightarrow>
      state (isrs a (on_timer s)) = (if state s = sleep then sweep else state s) \<and>
      state (isrs a (on_timer s)) \<in> {sweep, xor_st, flash} \<and>
      state (turn a b s) =
        (if \<not> bit (key_press (isrs a (on_timer s))) KEY0 then state (isrs a (on_timer s))
         else if state (isrs a (on_timer s)) = sweep then xor_st
         else if state (isrs a (on_timer s)) = xor_st then flash
         else sleep) \<and>
      loop_inv (turn a b s))"
proof -
  have 1: "state s \<in> {sweep, xor_st, flash, sleep} \<longrightarrow>
      state (key_pressed s) =
        (if state s = sweep then xor_st else if state s = xor_st then flash
         else if state s = flash then sleep else sweep)"
    by (auto simp add: key_pressed_state next_mode_cases modes_distinct)
  have 2: "loop_inv (turns ts (isrs i (main_init s)))"
    by (intro turns_inv isrs_inv main_init_loop_inv)
  then have 3: "state (isrs a (on_timer (turns ts (isrs i (main_init s))))) \<in>
      {sweep, xor_st, flash}"
    unfolding isrs_state by (rule on_timer_awake)
  have 4: "loop_inv s \<longrightarrow>
      state (isrs a (on_timer s)) = (if state s = sleep then sweep else state s) \<and>
      state (isrs a (on_timer s)) \<in> {sweep, xor_st, flash} \<and>
      state (turn a b s) =
        (if \<not> bit (key_press (isrs a (on_timer s))) KEY0 then state (isrs a (on_timer s))
         else if state (isrs a (on_timer s)) = sweep then xor_st
         else if state (isrs a (on_timer s)) = xor_st then flash
         else sleep) \<and>
      loop_inv (turn a b s)"
    using turn_law [of s a b] by (intro impI)
  have 5: "state (turns (ts @ [(a, b)]) (isrs i (main_init s))) =
     (if \<not> bit (key_press (isrs a (on_timer (turns ts (isrs i (main_init s)))))) KEY0
      then state (isrs a (on_timer (turns ts (isrs i (main_init s)))))
      else if state (isrs a (on_timer (turns ts (isrs i (main_init s))))) = sweep then xor_st
      else if state (isrs a (on_timer (turns ts (isrs i (main_init s))))) = xor_st then flash
      else sleep)"
  proof -
    define r where "r = turns ts (isrs i (main_init s))"
    have "loop_inv r"
      unfolding r_def by (rule 2)
    then have "state (turn a b r) =
        (if \<not> bit (key_press (isrs a (on_timer r))) KEY0 then state (isrs a (on_timer r))
         else if state (isrs a (on_timer r)) = sweep then xor_st
         else if state (isrs a (on_timer r)) = xor_st then flash
         else sleep)"
      using turn_law [of r a b] by blast
    moreover have "turns (ts @ [(a, b)]) (isrs i (main_init s)) = turn a b r"
      unfolding r_def by (simp add: turns_append)
    ultimately show ?thesis
      unfolding r_def by simp
  qed
  from 1 2 3 4 5 show ?thesis by blast
qed

theorem press_advances_mode_witness:
  "state (power_on\<lparr>state := sleep, timer := 1, key_press := 1\<rparr>) \<in>
     {sweep, xor_st, flash, sleep} \<and>
   loop_inv (power_on\<lparr>state := sleep, timer := 1, key_press := 1\<rparr>) \<and>
   state (key_pressed (power_on\<lparr>state := sleep, timer := 1, key_press := 1\<rparr>)) = sweep \<and>
   state (on_timer (power_on\<lparr>state := sleep, timer := 1, key_press := 1\<rparr>)) = sweep \<and>
   state (turn [] [] (power_on\<lparr>state := sleep, timer := 1, key_press := 1\<rparr>)) = xor_st"
proof -
  define S where "S = power_on\<lparr>state := sleep, timer := 1, key_press := 1\<rparr>"
  have m: "state S \<in> {sweep, xor_st, flash, sleep}" and l: "loop_inv S"
    and e: "state S = sleep" and k: "bit (key_press (isrs [] (on_timer S))) KEY0"
    by (simp_all add: S_def loop_inv_def on_timer_key_press KEY0_def)
  note at_S = press_advances_mode [where s = S and a = "[]" and b = "[]"]
  from at_S [THEN conjunct1, THEN mp, OF m] e
  have 1: "state (key_pressed S) = sweep"
    by (simp add: modes_distinct)
  note law = at_S [THEN conjunct2, THEN conjunct2, THEN conjunct2, THEN conjunct2,
      THEN mp, OF l]
  from law e have 2: "state (on_timer S) = sweep"
    by simp
  from law k 2 have 3: "state (turn [] [] S) = xor_st"
    by simp
  from m l 1 2 3 show ?thesis
    unfolding S_def by (intro conjI)
qed

end
